theory Spec2Isabelle
  imports Complex_Main "HOL-Library.Multiset"
begin

section \<open>JavaScript values, errors and arrays\<close>

text \<open>
  Objects are referred to by reference; \<open>===\<close> on two references is equality of the
  references. A thrown exception is a value of \<open>error\<close>; a call yields its outcome together
  with the state it leaves, so that the state at a throw can be inspected. \<open>TypeError\<close>
  is what a method call on \<open>undefined\<close> throws; the other errors are those that the
  fuzzy terms and variables signal. Numbers are modelled as reals: only \<open>===\<close> and
  comparisons are applied to them by the code below, and \<open>NaN\<close> is left out.
\<close>

type_synonym ref = nat

datatype jsval = JNull | JBool bool | JNumber real | JString string | JObject ref

datatype error = TypeError | ConfigurationError | DomainError

text \<open>
  \<open>Array.prototype.indexOf\<close>: the first index whose element is strictly equal to the
  argument, or \<open>-1\<close>.
\<close>

fun indexOf :: "'a list \<Rightarrow> 'a \<Rightarrow> int" where
  "indexOf [] x = - 1"
| "indexOf (y # ys) x =
     (if y = x then 0 else (let i = indexOf ys x in if i < 0 then - 1 else i + 1))"

text \<open>
  \<open>Array.prototype.splice(start, deleteCount)\<close> with no inserted items, as ECMAScript
  defines it: a negative \<open>start\<close> counts from the end of the array, and the number of
  deleted elements is clamped to what is left. The array after the call is returned.
\<close>

definition splice_array :: "int \<Rightarrow> int \<Rightarrow> 'a list \<Rightarrow> 'a list" where
  "splice_array start deleteCount xs =
     (let len = int (length xs);
          actualStart = (if start < 0 then max (len + start) 0 else min start len);
          actualDeleteCount = min (max deleteCount 0) (len - actualStart)
      in take (nat actualStart) xs @ drop (nat (actualStart + actualDeleteCount)) xs)"

section \<open>FuzzyModule (src/fuzzy/FuzzyModule.js)\<close>

text \<open>
  A fuzzy module holds an array of rules and a \<open>Map\<close> from names to FLVs. Rules and FLVs
  are objects of other classes: the module stores references to them (\<open>'r\<close>, \<open>'f\<close>) and
  only ever calls their methods.
\<close>

record ('r, 'f) FuzzyModule =
  rules :: "'r list"
  flvs :: "string \<rightharpoonup> 'f"

definition FuzzyModule_new :: "('r, 'f) FuzzyModule" where
  "FuzzyModule_new = \<lparr>rules = [], flvs = Map.empty\<rparr>"

text \<open>
  The methods of the rule and FLV objects that the module calls (the classes themselves
  are not part of this file of the repository). Each acts on the state \<open>'s\<close> of the
  fuzzy sets (their degrees of membership) and may throw; rules and FLVs hold no
  reference to the module and do not call back into it. \<open>Logger\<close> is the imported
  logging collaborator; \<open>Logger.warn\<close> appends its arguments to the log.
\<close>

record ('r, 's) rule_methods =
  initConsequence :: "'r \<Rightarrow> 's \<Rightarrow> (error + unit) \<times> 's"
  evaluate :: "'r \<Rightarrow> 's \<Rightarrow> (error + unit) \<times> 's"

record ('f, 's) flv_methods =
  flv_fuzzify :: "'f \<Rightarrow> real \<Rightarrow> 's \<Rightarrow> (error + unit) \<times> 's"
  defuzzifyMaxAv :: "'f \<Rightarrow> 's \<Rightarrow> (error + real) \<times> 's"
  defuzzifyCentroid :: "'f \<Rightarrow> 's \<Rightarrow> (error + real) \<times> 's"

record ('r, 'f, 's) world =
  heap :: "ref \<Rightarrow> ('r, 'f) FuzzyModule"
  store :: 's
  logger :: "(string \<times> jsval) list"

definition DEFUZ_TYPE_MAXAV :: jsval where
  "DEFUZ_TYPE_MAXAV = JNumber 0"

definition DEFUZ_TYPE_CENTROID :: jsval where
  "DEFUZ_TYPE_CENTROID = JNumber 1"

definition addFLV ::
  "ref \<Rightarrow> string \<Rightarrow> 'f \<Rightarrow> ('r, 'f, 's) world \<Rightarrow> ref \<times> ('r, 'f, 's) world" where
  "addFLV this name flv w =
     (let m = heap w this
      in (this, w\<lparr>heap := (heap w)(this := m\<lparr>flvs := (flvs m)(name \<mapsto> flv)\<rparr>)\<rparr>))"

definition removeFLV ::
  "ref \<Rightarrow> string \<Rightarrow> ('r, 'f, 's) world \<Rightarrow> ref \<times> ('r, 'f, 's) world" where
  "removeFLV this name w =
     (let m = heap w this
      in (this, w\<lparr>heap := (heap w)(this := m\<lparr>flvs := (flvs m)(name := None)\<rparr>)\<rparr>))"

definition addRule ::
  "ref \<Rightarrow> 'r \<Rightarrow> ('r, 'f, 's) world \<Rightarrow> ref \<times> ('r, 'f, 's) world" where
  "addRule this rule w =
     (let m = heap w this
      in (this, w\<lparr>heap := (heap w)(this := m\<lparr>rules := rules m @ [rule]\<rparr>)\<rparr>))"

definition removeRule ::
  "ref \<Rightarrow> 'r \<Rightarrow> ('r, 'f, 's) world \<Rightarrow> ref \<times> ('r, 'f, 's) world" where
  "removeRule this rule w =
     (let m = heap w this;
          index = indexOf (rules m) rule
      in (this, w\<lparr>heap := (heap w)(this := m\<lparr>rules := splice_array index 1 (rules m)\<rparr>)\<rparr>))"

text \<open>
  \<open>flvs.get(name)\<close> is \<open>undefined\<close> for a name that is not a key, and a method call on
  \<open>undefined\<close> throws a \<open>TypeError\<close>.
\<close>

definition fuzzify ::
  "('f, 's) flv_methods \<Rightarrow> ref \<Rightarrow> string \<Rightarrow> real \<Rightarrow> ('r, 'f, 's) world
     \<Rightarrow> (error + ref) \<times> ('r, 'f, 's) world" where
  "fuzzify fm this name val w =
     (case flvs (heap w this) name of
        None \<Rightarrow> (Inl TypeError, w)
      | Some flv \<Rightarrow>
          (case flv_fuzzify fm flv val (store w) of
             (Inl e, s') \<Rightarrow> (Inl e, w\<lparr>store := s'\<rparr>)
           | (Inr u, s') \<Rightarrow> (Inr this, w\<lparr>store := s'\<rparr>)))"

text \<open>
  The loop \<open>for (let i = 0, l = rules.length; i < l; i++) rules[i].method()\<close>: the method
  is called on the rules in array order; a throw leaves the loop.
\<close>

fun forEach ::
  "('r \<Rightarrow> 's \<Rightarrow> (error + unit) \<times> 's) \<Rightarrow> 'r list \<Rightarrow> 's \<Rightarrow> (error + unit) \<times> 's" where
  "forEach method [] s = (Inr (), s)"
| "forEach method (r # rs) s =
     (case method r s of
        (Inl e, s') \<Rightarrow> (Inl e, s')
      | (Inr u, s') \<Rightarrow> forEach method rs s')"

definition initConsequences ::
  "('r, 's) rule_methods \<Rightarrow> ref \<Rightarrow> ('r, 'f, 's) world
     \<Rightarrow> (error + ref) \<times> ('r, 'f, 's) world" where
  "initConsequences rm this w =
     (case forEach (initConsequence rm) (rules (heap w this)) (store w) of
        (Inl e, s') \<Rightarrow> (Inl e, w\<lparr>store := s'\<rparr>)
      | (Inr u, s') \<Rightarrow> (Inr this, w\<lparr>store := s'\<rparr>))"

definition warn :: "string \<Rightarrow> jsval \<Rightarrow> ('r, 'f, 's) world \<Rightarrow> ('r, 'f, 's) world" where
  "warn msg v w = w\<lparr>logger := logger w @ [(msg, v)]\<rparr>"

text \<open>\<open>flv.method()\<close> for the value \<open>flv\<close> that \<open>flvs.get(name)\<close> returned.\<close>

definition call_flv ::
  "('f \<Rightarrow> 's \<Rightarrow> (error + real) \<times> 's) \<Rightarrow> 'f option \<Rightarrow> ('r, 'f, 's) world
     \<Rightarrow> (error + real) \<times> ('r, 'f, 's) world" where
  "call_flv method flv w =
     (case flv of
        None \<Rightarrow> (Inl TypeError, w)
      | Some f \<Rightarrow> (case method f (store w) of (res, s') \<Rightarrow> (res, w\<lparr>store := s'\<rparr>)))"

text \<open>
  \<open>defuzzify(name, type = FuzzyModule.DEFUZ_TYPE.MAXAV)\<close>. The argument \<open>type_arg\<close> is
  \<open>None\<close> when the caller passes no type (or \<open>undefined\<close>, which JavaScript does not tell
  apart): the parameter then takes its default. The \<open>switch\<close> compares with \<open>===\<close>.
\<close>

definition defuzzify ::
  "('r, 's) rule_methods \<Rightarrow> ('f, 's) flv_methods \<Rightarrow> ref \<Rightarrow> string \<Rightarrow> jsval option \<Rightarrow> ('r, 'f, 's) world
     \<Rightarrow> (error + real) \<times> ('r, 'f, 's) world" where
  "defuzzify rm fm this name type_arg w =
     (let type = (case type_arg of None \<Rightarrow> DEFUZ_TYPE_MAXAV | Some t \<Rightarrow> t);
          m = heap w this
      in case initConsequences rm this w of
           (Inl e, w1) \<Rightarrow> (Inl e, w1)
         | (Inr u, w1) \<Rightarrow>
             (case forEach (evaluate rm) (rules m) (store w1) of
                (Inl e, s2) \<Rightarrow> (Inl e, w1\<lparr>store := s2\<rparr>)
              | (Inr u, s2) \<Rightarrow>
                  (let w2 = w1\<lparr>store := s2\<rparr>;
                       flv = flvs m name
                   in if type = DEFUZ_TYPE_MAXAV then call_flv (defuzzifyMaxAv fm) flv w2
                      else if type = DEFUZ_TYPE_CENTROID then call_flv (defuzzifyCentroid fm) flv w2
                      else call_flv (defuzzifyMaxAv fm) flv
                             (warn ''YUKA.FuzzyModule: Unknown defuzzification method:'' type w2))))"

subsection \<open>Recording collaborators\<close>

text \<open>
  Rule and FLV objects that do nothing but append each call they receive to a trace.
  Running the module against them shows which methods it calls, on which objects and in
  which order.
\<close>

datatype ('r, 'f) call =
  InitConsequence 'r | Evaluate 'r | Fuzzify 'f real | DefuzzifyMaxAv 'f | DefuzzifyCentroid 'f

definition rule_recorder :: "('r, ('r, 'f) call list) rule_methods" where
  "rule_recorder =
     \<lparr>initConsequence = (\<lambda>r s. (Inr (), s @ [InitConsequence r])),
      evaluate = (\<lambda>r s. (Inr (), s @ [Evaluate r]))\<rparr>"

definition flv_recorder :: "('f, ('r, 'f) call list) flv_methods" where
  "flv_recorder =
     \<lparr>flv_fuzzify = (\<lambda>f v s. (Inr (), s @ [Fuzzify f v])),
      defuzzifyMaxAv = (\<lambda>f s. (Inr 0, s @ [DefuzzifyMaxAv f])),
      defuzzifyCentroid = (\<lambda>f s. (Inr 0, s @ [DefuzzifyCentroid f]))\<rparr>"

section \<open>Fuzzy terms, rules and variables\<close>

text \<open>
  Modelled from the spec: the classes FuzzySet, FuzzyAND, FuzzyOR, FuzzyVERY and
  FuzzyFAIRLY (FuzzyCompositeTerm), whose files are not among the sources. A term is a
  fuzzy set (a leaf, named by the cell that holds its degree of membership), an AND or
  OR composite over an ordered sequence of children, or a hedge over exactly one child
  (spec 3).
\<close>

datatype FuzzyTerm =
  FuzzySet nat
| FuzzyAND "FuzzyTerm list"
| FuzzyOR "FuzzyTerm list"
| FuzzyVERY FuzzyTerm
| FuzzyFAIRLY FuzzyTerm

type_synonym degrees = "nat \<Rightarrow> real"

text \<open>The values of a sequence of calls made in order; the first throw propagates.\<close>

fun results :: "(error + 'a) list \<Rightarrow> error + 'a list" where
  "results [] = Inr []"
| "results (Inl e # rs) = Inl e"
| "results (Inr v # rs) = (case results rs of Inl e \<Rightarrow> Inl e | Inr vs \<Rightarrow> Inr (v # vs))"

text \<open>
  Modelled from the spec: getDegreeOfMembership of FuzzySet, FuzzyAND, FuzzyOR, FuzzyVERY
  and FuzzyFAIRLY, which are missing from the sources. A set returns its stored value;
  AND is the minimum and OR the maximum over the children's degrees; VERY is the child's
  degree squared and FAIRLY its square root (spec 4.3); a composite without children is a
  configuration error signalled to the caller (spec 7).
\<close>

fun getDegreeOfMembership :: "FuzzyTerm \<Rightarrow> degrees \<Rightarrow> error + real" where
  "getDegreeOfMembership (FuzzySet i) s = Inr (s i)"
| "getDegreeOfMembership (FuzzyAND ts) s =
     (case results (map (\<lambda>t. getDegreeOfMembership t s) ts) of
        Inl e \<Rightarrow> Inl e
      | Inr [] \<Rightarrow> Inl ConfigurationError
      | Inr (d # ds) \<Rightarrow> Inr (fold min ds d))"
| "getDegreeOfMembership (FuzzyOR ts) s =
     (case results (map (\<lambda>t. getDegreeOfMembership t s) ts) of
        Inl e \<Rightarrow> Inl e
      | Inr [] \<Rightarrow> Inl ConfigurationError
      | Inr (d # ds) \<Rightarrow> Inr (fold max ds d))"
| "getDegreeOfMembership (FuzzyVERY t) s =
     (case getDegreeOfMembership t s of Inl e \<Rightarrow> Inl e | Inr d \<Rightarrow> Inr (d * d))"
| "getDegreeOfMembership (FuzzyFAIRLY t) s =
     (case getDegreeOfMembership t s of Inl e \<Rightarrow> Inl e | Inr d \<Rightarrow> Inr (sqrt d))"

text \<open>
  Modelled from the spec: clearDegreeOfMembership of FuzzySet and of the composites,
  missing from the sources. It resets a set to 0 and recurses into every child of a
  composite, a hedge being a composite with one child (spec 4.1, 4.3).
\<close>

fun clearDegreeOfMembership :: "FuzzyTerm \<Rightarrow> degrees \<Rightarrow> degrees" where
  "clearDegreeOfMembership (FuzzySet i) s = s(i := 0)"
| "clearDegreeOfMembership (FuzzyAND ts) s = fold clearDegreeOfMembership ts s"
| "clearDegreeOfMembership (FuzzyOR ts) s = fold clearDegreeOfMembership ts s"
| "clearDegreeOfMembership (FuzzyVERY t) s = clearDegreeOfMembership t s"
| "clearDegreeOfMembership (FuzzyFAIRLY t) s = clearDegreeOfMembership t s"

text \<open>
  Modelled from the spec: updateDegreeOfMembership of FuzzySet and of the composites,
  missing from the sources. A set OR-accumulates, \<open>max(current, value)\<close>; a composite
  (a hedge too, with its one child) passes the same value to every child (spec 4.1, 4.3).
\<close>

fun updateDegreeOfMembership :: "FuzzyTerm \<Rightarrow> real \<Rightarrow> degrees \<Rightarrow> degrees" where
  "updateDegreeOfMembership (FuzzySet i) v s = s(i := max (s i) v)"
| "updateDegreeOfMembership (FuzzyAND ts) v s = fold (\<lambda>t. updateDegreeOfMembership t v) ts s"
| "updateDegreeOfMembership (FuzzyOR ts) v s = fold (\<lambda>t. updateDegreeOfMembership t v) ts s"
| "updateDegreeOfMembership (FuzzyVERY t) v s = updateDegreeOfMembership t v s"
| "updateDegreeOfMembership (FuzzyFAIRLY t) v s = updateDegreeOfMembership t v s"

text \<open>The fuzzy sets a term wraps, directly or through composites.\<close>

fun leaves :: "FuzzyTerm \<Rightarrow> nat set" where
  "leaves (FuzzySet i) = {i}"
| "leaves (FuzzyAND ts) = (\<Union>t\<in>set ts. leaves t)"
| "leaves (FuzzyOR ts) = (\<Union>t\<in>set ts. leaves t)"
| "leaves (FuzzyVERY t) = leaves t"
| "leaves (FuzzyFAIRLY t) = leaves t"

text \<open>
  Modelled from the spec: the class FuzzyRule, missing from the sources. A rule holds one
  antecedent and one consequent; \<open>initConsequence\<close> clears the consequent subtree and
  \<open>evaluate\<close> updates it with the antecedent's degree of membership (spec 3, 4.5).
\<close>

record FuzzyRule =
  antecedent :: FuzzyTerm
  consequence :: FuzzyTerm

definition FuzzyRule_initConsequence :: "FuzzyRule \<Rightarrow> degrees \<Rightarrow> (error + unit) \<times> degrees" where
  "FuzzyRule_initConsequence rule s = (Inr (), clearDegreeOfMembership (consequence rule) s)"

definition FuzzyRule_evaluate :: "FuzzyRule \<Rightarrow> degrees \<Rightarrow> (error + unit) \<times> degrees" where
  "FuzzyRule_evaluate rule s =
     (case getDegreeOfMembership (antecedent rule) s of
        Inl e \<Rightarrow> (Inl e, s)
      | Inr d \<Rightarrow> (Inr (), updateDegreeOfMembership (consequence rule) d s))"

text \<open>The methods of the rule objects \<open>rule_at r\<close>, as the module calls them.\<close>

definition FuzzyRule_methods :: "('r \<Rightarrow> FuzzyRule) \<Rightarrow> ('r, degrees) rule_methods" where
  "FuzzyRule_methods rule_at =
     \<lparr>initConsequence = (\<lambda>r. FuzzyRule_initConsequence (rule_at r)),
      evaluate = (\<lambda>r. FuzzyRule_evaluate (rule_at r))\<rparr>"

text \<open>
  Modelled from the spec: FuzzyVariable.defuzzifyMaxAv, missing from the sources. The
  variable owns fuzzy sets, each with a representative value; the result is
  \<open>\<Sigma>(representativeValue * degree) / \<Sigma>(degree)\<close> over the sets whose degree exceeds a
  small positive threshold, and 0 when there is none (spec 4.4). The threshold, which the
  spec does not give, is the parameter \<open>eps\<close>.
\<close>

record FuzzyVariable =
  fuzzySets :: "(nat \<times> real) list"

definition FuzzyVariable_defuzzifyMaxAv :: "real \<Rightarrow> FuzzyVariable \<Rightarrow> degrees \<Rightarrow> real" where
  "FuzzyVariable_defuzzifyMaxAv eps flv s =
     (let qualifying = filter (\<lambda>(i, rep). eps < s i) (fuzzySets flv);
          bottom = sum_list (map (\<lambda>(i, rep). s i) qualifying);
          top = sum_list (map (\<lambda>(i, rep). rep * s i) qualifying)
      in if qualifying = [] then 0 else top / bottom)"

text \<open>
  FLV objects that implement \<open>defuzzifyMaxAv\<close> only, for running the module on concrete
  rule bases: calling a method that an object does not have throws a \<open>TypeError\<close>.
\<close>

definition MaxAv_only :: "real \<Rightarrow> ('f \<Rightarrow> FuzzyVariable) \<Rightarrow> ('f, degrees) flv_methods" where
  "MaxAv_only eps flv_at =
     \<lparr>flv_fuzzify = (\<lambda>f v s. (Inl TypeError, s)),
      defuzzifyMaxAv = (\<lambda>f s. (Inr (FuzzyVariable_defuzzifyMaxAv eps (flv_at f) s), s)),
      defuzzifyCentroid = (\<lambda>f s. (Inl TypeError, s))\<rparr>"

text \<open>
  No fuzzy set that the consequent of one of the rules writes is read by the antecedent
  of one of the rules.
\<close>

definition no_feedback :: "('r \<Rightarrow> FuzzyRule) \<Rightarrow> 'r list \<Rightarrow> bool" where
  "no_feedback rule_at rs =
     list_all (\<lambda>r. list_all (\<lambda>r'.
        leaves (antecedent (rule_at r)) \<inter> leaves (consequence (rule_at r')) = {}) rs) rs"

section \<open>Worlds and rule bases used as concrete inputs\<close>

text \<open>The module with its rules registered in the order \<open>rs\<close>.\<close>

definition with_rules :: "ref \<Rightarrow> 'r list \<Rightarrow> ('r, 'f, 's) world \<Rightarrow> ('r, 'f, 's) world" where
  "with_rules this rs w = w\<lparr>heap := (heap w)(this := (heap w this)\<lparr>rules := rs\<rparr>)\<rparr>"

text \<open>A world in which every reference denotes a newly constructed module.\<close>

definition fresh :: "'s \<Rightarrow> ('r, 'f, 's) world" where
  "fresh s = \<lparr>heap = (\<lambda>_. FuzzyModule_new), store = s, logger = []\<rparr>"

text \<open>
  Module 0 after \<open>addFLV('desirability', flv7).addRule(rule1).addRule(rule2)\<close>.
\<close>

definition example_world :: "'s \<Rightarrow> (nat, nat, 's) world" where
  "example_world s =
     snd (addRule 0 2 (snd (addRule 0 1 (snd (addFLV 0 ''desirability'' 7 (fresh s))))))"

text \<open>
  Fuzzy sets 0 and 1 have been fuzzified to 1/2 and 1/4; every other set is at 0. The
  output variable owns the sets 2 and 3, with representative values 75 and 25.
\<close>

definition example_degrees :: degrees where
  "example_degrees = (\<lambda>_. 0)(0 := 1 / 2, 1 := 1 / 4)"

definition desirability :: "nat \<Rightarrow> FuzzyVariable" where
  "desirability f = \<lparr>fuzzySets = [(2, 75), (3, 25)]\<rparr>"

text \<open>Rule 1: IF set 0 THEN set 2. Rule 2: IF set 1 THEN set 2 (a shared consequent).\<close>

definition shared_consequent_rules :: "nat \<Rightarrow> FuzzyRule" where
  "shared_consequent_rules r = \<lparr>antecedent = FuzzySet (r - 1), consequence = FuzzySet 2\<rparr>"

lemmas example_defs = example_world_def fresh_def FuzzyModule_new_def addRule_def addFLV_def
  example_degrees_def shared_consequent_rules_def desirability_def
  MaxAv_only_def FuzzyVariable_defuzzifyMaxAv_def FuzzyRule_methods_def
  FuzzyRule_initConsequence_def FuzzyRule_evaluate_def
  defuzzify_def initConsequences_def call_flv_def warn_def Let_def
  DEFUZ_TYPE_MAXAV_def DEFUZ_TYPE_CENTROID_def with_rules_def

section \<open>Properties of the array operations\<close>

lemma indexOf_absent: "x \<notin> set xs \<Longrightarrow> indexOf xs x = - 1"
  by (induction xs) (auto simp: Let_def)

lemma splice_minus_one: "splice_array (- 1) 1 xs = butlast xs"
  by (cases xs rule: rev_cases) (auto simp: splice_array_def Let_def)

lemma indexOf_present:
  "x \<in> set xs \<Longrightarrow> 0 \<le> indexOf xs x \<and> indexOf xs x < int (length xs)"
  by (induction xs) (auto simp: Let_def)

lemma splice_indexOf:
  "x \<in> set xs \<Longrightarrow> splice_array (indexOf xs x) 1 xs = remove1 x xs"
proof (induction xs)
  case Nil
  then show ?case by simp
next
  case (Cons y ys)
  show ?case
  proof (cases "y = x")
    case True
    then show ?thesis by (simp add: splice_array_def Let_def)
  next
    case False
    with Cons.prems have in_ys: "x \<in> set ys" by simp
    from indexOf_present [OF in_ys] have b: "0 \<le> indexOf ys x" "indexOf ys x < int (length ys)"
      by simp_all
    have "splice_array (indexOf ys x + 1) 1 (y # ys) = y # splice_array (indexOf ys x) 1 ys"
      using b by (simp add: splice_array_def Let_def nat_add_distrib min_def max_def)
    with False b Cons.IH [OF in_ys] show ?thesis
      by (simp add: Let_def)
  qed
qed

section \<open>The example world\<close>

lemma example_registered: "flvs (heap (example_world s) 0) ''desirability'' = Some 7"
  by (simp add: example_world_def fresh_def FuzzyModule_new_def addRule_def addFLV_def Let_def)

lemma example_unregistered: "flvs (heap (example_world s) 0) ''speed'' = None"
  by (simp add: example_world_def fresh_def FuzzyModule_new_def addRule_def addFLV_def Let_def)

lemma example_rules: "rules (heap (example_world s) 0) = [1, 2]"
  by (simp add: example_world_def fresh_def FuzzyModule_new_def addRule_def addFLV_def Let_def)

lemma example_store: "store (example_world s) = s"
  by (simp add: example_world_def fresh_def FuzzyModule_new_def addRule_def addFLV_def Let_def)

lemma example_logger: "logger (example_world s) = []"
  by (simp add: example_world_def fresh_def FuzzyModule_new_def addRule_def addFLV_def Let_def)

lemma example_init:
  "forEach (initConsequence (FuzzyRule_methods shared_consequent_rules)) [1, 2] example_degrees
     = (Inr (), example_degrees(2 := 0))"
  by (simp add: example_defs)

lemma example_evaluate:
  "forEach (evaluate (FuzzyRule_methods shared_consequent_rules)) [1, 2] (example_degrees(2 := 0))
     = (Inr (), example_degrees(2 := 1 / 2))"
  by (simp add: example_defs)

lemma example_MaxAv:
  "defuzzifyMaxAv (MaxAv_only (1 / 1000) desirability) 7 (example_degrees(2 := 1 / 2))
     = (Inr 75, example_degrees(2 := 1 / 2))"
  by (simp add: example_defs)

section \<open>Registry operations of FuzzyModule\<close>

text \<open>
  \<open>removeRule\<close> of a registered rule removes its first occurrence and nothing else; of a
  rule that is not registered, \<open>indexOf\<close> yields \<open>-1\<close> and \<open>splice(-1, 1)\<close> removes the
  last rule of the array.
\<close>

lemma removeRule_present:
  "rule \<in> set (rules (heap w this)) \<Longrightarrow>
     rules (heap (snd (removeRule this rule w)) this) = remove1 rule (rules (heap w this))"
  by (simp add: removeRule_def Let_def splice_indexOf)

lemma removeRule_absent:
  "rule \<notin> set (rules (heap w this)) \<Longrightarrow>
     rules (heap (snd (removeRule this rule w)) this) = butlast (rules (heap w this))"
  by (simp add: removeRule_def Let_def indexOf_absent splice_minus_one)

text \<open>
  C1: for a rule that is not in the rule sequence, \<open>removeRule\<close> should leave the sequence
  unchanged or signal a not-found error, and never remove another rule. The code does
  otherwise: on a module holding the rules 1 and 2, \<open>removeRule\<close> of the unregistered
  rule 3 returns normally and the sequence is left as \<open>[1]\<close>: rule 2 has been removed.
\<close>

theorem removeRule_absent_removes_last:
  "rules (heap (example_world ()) 0) = [1, 2] \<and>
   rules (heap (snd (removeRule 0 3 (example_world ()))) 0) = [1]"
  by (simp add: removeRule_def example_world_def fresh_def FuzzyModule_new_def addRule_def
      addFLV_def Let_def splice_array_def)

text \<open>
  C3: for a name under which no FLV is registered, \<open>fuzzify(name, value)\<close> fails for every
  crisp value: it throws (the \<open>TypeError\<close> of a method call on \<open>undefined\<close>) and leaves
  the world as it was, so that no FLV has been fuzzified, whatever the FLV objects do.
\<close>

theorem fuzzify_unregistered:
  "flvs (heap w this) name = None \<Longrightarrow> fuzzify fm this name v w = (Inl TypeError, w)"
  by (simp add: fuzzify_def)

theorem fuzzify_unregistered_witness:
  "flvs (heap (example_world [] :: (nat, nat, (nat, nat) call list) world) 0) ''speed'' = None \<and>
   fuzzify flv_recorder 0 ''speed'' 10 (example_world [] :: (nat, nat, (nat, nat) call list) world)
     = (Inl TypeError, example_world [])"
  using fuzzify_unregistered
    [of "example_world [] :: (nat, nat, (nat, nat) call list) world" 0 "''speed''" flv_recorder 10]
  by (simp add: example_unregistered)

text \<open>
  C9: \<open>addFLV\<close>, \<open>removeFLV\<close>, \<open>addRule\<close> and \<open>removeRule\<close> always return the reference
  \<open>this\<close> of the module they were called on, and so does \<open>fuzzify\<close> whenever it returns,
  which it does when the name is registered and the FLV's own \<open>fuzzify\<close> completes.
\<close>

theorem fluent_chaining:
  "fst (addFLV this name flv w) = this \<and>
   fst (removeFLV this name w) = this \<and>
   fst (addRule this rule w) = this \<and>
   fst (removeRule this rule w) = this \<and>
   (flvs (heap w this) name = Some flv \<and> fst (flv_fuzzify fm flv v (store w)) = Inr () \<longrightarrow>
      fst (fuzzify fm this name v w) = Inr this) \<and>
   (\<forall>r. fst (fuzzify fm this name v w) = Inr r \<longrightarrow> r = this)"
  by (auto simp: addFLV_def removeFLV_def addRule_def removeRule_def fuzzify_def Let_def
      split: prod.splits sum.splits option.splits)

theorem fluent_chaining_witness:
  "fst (addFLV 0 ''desirability'' 7 (example_world [] :: (nat, nat, (nat, nat) call list) world)) = 0 \<and>
   fst (removeFLV 0 ''desirability'' (example_world [] :: (nat, nat, (nat, nat) call list) world)) = 0 \<and>
   fst (addRule 0 1 (example_world [] :: (nat, nat, (nat, nat) call list) world)) = 0 \<and>
   fst (removeRule 0 1 (example_world [] :: (nat, nat, (nat, nat) call list) world)) = 0 \<and>
   flvs (heap (example_world [] :: (nat, nat, (nat, nat) call list) world) 0) ''desirability'' = Some 7 \<and>
   fst (flv_fuzzify flv_recorder 7 10
     (store (example_world [] :: (nat, nat, (nat, nat) call list) world))) = Inr () \<and>
   fst (fuzzify flv_recorder 0 ''desirability'' 10
     (example_world [] :: (nat, nat, (nat, nat) call list) world)) = Inr 0"
  using fluent_chaining
    [of 0 "''desirability''" 7 "example_world [] :: (nat, nat, (nat, nat) call list) world" 1
      flv_recorder 10]
  by (simp add: example_registered flv_recorder_def)

section \<open>defuzzify\<close>

text \<open>
  C10: \<open>defuzzify(name, type)\<close> leaves the FLV mapping and the rule sequence of the module
  as they were, for every name (registered or not), every type, and whether the call
  returns or throws: no module object is changed at all.
\<close>

theorem defuzzify_frame:
  "heap (snd (defuzzify rm fm this name ty w)) = heap w \<and>
   flvs (heap (snd (defuzzify rm fm this name ty w)) this) = flvs (heap w this) \<and>
   rules (heap (snd (defuzzify rm fm this name ty w)) this) = rules (heap w this)"
  by (auto simp: defuzzify_def initConsequences_def call_flv_def warn_def Let_def
      split: prod.splits sum.splits option.splits)

lemma forEach_recorder_init:
  "forEach (initConsequence rule_recorder) rs s = (Inr (), s @ map InitConsequence rs)"
  by (induction rs arbitrary: s) (simp_all add: rule_recorder_def)

lemma forEach_recorder_evaluate:
  "forEach (evaluate rule_recorder) rs s = (Inr (), s @ map Evaluate rs)"
  by (induction rs arbitrary: s) (simp_all add: rule_recorder_def)

text \<open>
  C5: with rules \<open>r1..rn\<close> registered in this order and an FLV registered under the name,
  one \<open>defuzzify\<close> call makes exactly these calls, in this order: \<open>initConsequence\<close> on
  \<open>r1..rn\<close>, then \<open>evaluate\<close> on \<open>r1..rn\<close>, then the chosen defuzzification method of the
  named FLV (\<open>defuzzifyCentroid\<close> for CENTROID, \<open>defuzzifyMaxAv\<close> otherwise).
\<close>

theorem defuzzify_call_order:
  assumes "flvs (heap w this) name = Some flv"
  shows "store (snd (defuzzify rule_recorder flv_recorder this name ty w)) =
     store w @ map InitConsequence (rules (heap w this)) @ map Evaluate (rules (heap w this)) @
       [if ty = Some DEFUZ_TYPE_CENTROID then DefuzzifyCentroid flv else DefuzzifyMaxAv flv]"
  using assms
  by (auto simp: defuzzify_def initConsequences_def call_flv_def warn_def Let_def
        forEach_recorder_init forEach_recorder_evaluate flv_recorder_def
        DEFUZ_TYPE_CENTROID_def DEFUZ_TYPE_MAXAV_def
      split: option.splits)

theorem defuzzify_call_order_witness:
  "flvs (heap (example_world [] :: (nat, nat, (nat, nat) call list) world) 0) ''desirability''
     = Some 7 \<and>
   store (snd (defuzzify rule_recorder flv_recorder 0 ''desirability'' (Some DEFUZ_TYPE_CENTROID)
      (example_world []))) =
     [InitConsequence 1, InitConsequence 2, Evaluate 1, Evaluate 2, DefuzzifyCentroid 7]"
  using defuzzify_call_order
    [of "example_world [] :: (nat, nat, (nat, nat) call list) world" 0 "''desirability''" 7
      "Some DEFUZ_TYPE_CENTROID"]
  by (simp add: example_registered example_rules example_store)

text \<open>
  C2, as amended: for a name under which no FLV is registered, \<open>defuzzify(name, type)\<close>
  always fails, but not before the rules have run: when \<open>initConsequence\<close> and \<open>evaluate\<close>
  complete on every rule, the error is the \<open>TypeError\<close> of the method call on
  \<open>undefined\<close>, thrown in the state of the fuzzy sets that the two loops have left.
\<close>

theorem defuzzify_unregistered:
  assumes "flvs (heap w this) name = None"
  shows "isl (fst (defuzzify rm fm this name ty w)) \<and>
    (forEach (initConsequence rm) (rules (heap w this)) (store w) = (Inr (), s1) \<and>
     forEach (evaluate rm) (rules (heap w this)) s1 = (Inr (), s2) \<longrightarrow>
       fst (defuzzify rm fm this name ty w) = Inl TypeError \<and>
       store (snd (defuzzify rm fm this name ty w)) = s2)"
  using assms
  by (auto simp: defuzzify_def initConsequences_def call_flv_def warn_def Let_def
      split: prod.splits sum.splits option.splits)

theorem defuzzify_unregistered_witness:
  "flvs (heap (example_world example_degrees) 0) ''speed'' = None \<and>
   forEach (initConsequence (FuzzyRule_methods shared_consequent_rules))
     (rules (heap (example_world example_degrees) 0)) (store (example_world example_degrees))
       = (Inr (), example_degrees(2 := 0)) \<and>
   forEach (evaluate (FuzzyRule_methods shared_consequent_rules))
     (rules (heap (example_world example_degrees) 0)) (example_degrees(2 := 0))
       = (Inr (), example_degrees(2 := 1 / 2)) \<and>
   isl (fst (defuzzify (FuzzyRule_methods shared_consequent_rules)
          (MaxAv_only (1 / 1000) desirability) 0 ''speed'' None (example_world example_degrees))) \<and>
   fst (defuzzify (FuzzyRule_methods shared_consequent_rules)
          (MaxAv_only (1 / 1000) desirability) 0 ''speed'' None (example_world example_degrees))
     = Inl TypeError \<and>
   store (snd (defuzzify (FuzzyRule_methods shared_consequent_rules)
          (MaxAv_only (1 / 1000) desirability) 0 ''speed'' None (example_world example_degrees)))
     = example_degrees(2 := 1 / 2)"
proof -
  have u: "flvs (heap (example_world example_degrees) 0) ''speed'' = None"
    by (rule example_unregistered)
  have i: "forEach (initConsequence (FuzzyRule_methods shared_consequent_rules))
     (rules (heap (example_world example_degrees) 0)) (store (example_world example_degrees))
       = (Inr (), example_degrees(2 := 0))"
    by (simp only: example_rules example_store example_init)
  have e: "forEach (evaluate (FuzzyRule_methods shared_consequent_rules))
     (rules (heap (example_world example_degrees) 0)) (example_degrees(2 := 0))
       = (Inr (), example_degrees(2 := 1 / 2))"
    by (simp only: example_rules example_evaluate)
  show ?thesis
    using defuzzify_unregistered
      [OF u, of "FuzzyRule_methods shared_consequent_rules" "MaxAv_only (1 / 1000) desirability"
        None "example_degrees(2 := 0)" "example_degrees(2 := 1 / 2)"] u i e
    by simp
qed

text \<open>
  The claim C2 as stated fails: with the rules IF set 0 THEN set 2 and IF set 1 THEN set 2
  registered and set 0 fuzzified to 1/2, \<open>defuzzify('speed')\<close> throws for the unregistered
  name, and by then the accumulator of set 2 has gone from 0 to 1/2. Against recording
  rule objects, the same call has called \<open>initConsequence\<close> and \<open>evaluate\<close> on both rules
  before it throws.
\<close>

theorem defuzzify_unregistered_mutates:
  "fst (defuzzify (FuzzyRule_methods shared_consequent_rules) (MaxAv_only (1 / 1000) desirability)
          0 ''speed'' None (example_world example_degrees)) = Inl TypeError \<and>
   store (example_world example_degrees) 2 = 0 \<and>
   store (snd (defuzzify (FuzzyRule_methods shared_consequent_rules)
          (MaxAv_only (1 / 1000) desirability) 0 ''speed'' None (example_world example_degrees))) 2
     = 1 / 2 \<and>
   fst (defuzzify rule_recorder flv_recorder 0 ''speed'' None
          (example_world [] :: (nat, nat, (nat, nat) call list) world)) = Inl TypeError \<and>
   store (snd (defuzzify rule_recorder flv_recorder 0 ''speed'' None
          (example_world [] :: (nat, nat, (nat, nat) call list) world)))
     = [InitConsequence 1, InitConsequence 2, Evaluate 1, Evaluate 2]"
  by (simp add: example_defs rule_recorder_def flv_recorder_def)

text \<open>
  C4: with an FLV registered under the name and a type value that is neither MAXAV nor
  CENTROID, \<open>defuzzify(name, type)\<close> does not fail on account of the type: once the rules
  have run, it logs the warning with the requested type through \<open>Logger.warn\<close> and returns
  what \<open>defuzzifyMaxAv\<close> of that FLV yields, the same crisp value as a call with MAXAV.
\<close>

theorem defuzzify_unknown_type:
  assumes "flvs (heap w this) name = Some flv"
    and "ty \<noteq> DEFUZ_TYPE_MAXAV" and "ty \<noteq> DEFUZ_TYPE_CENTROID"
    and "forEach (initConsequence rm) (rules (heap w this)) (store w) = (Inr (), s1)"
    and "forEach (evaluate rm) (rules (heap w this)) s1 = (Inr (), s2)"
    and "defuzzifyMaxAv fm flv s2 = (Inr v, s3)"
  shows "defuzzify rm fm this name (Some ty) w =
           (Inr v, w\<lparr>store := s3,
              logger := logger w @ [(''YUKA.FuzzyModule: Unknown defuzzification method:'', ty)]\<rparr>) \<and>
         fst (defuzzify rm fm this name (Some DEFUZ_TYPE_MAXAV) w) = Inr v"
  using assms
  by (simp add: defuzzify_def initConsequences_def call_flv_def warn_def Let_def)

theorem defuzzify_unknown_type_witness:
  "flvs (heap (example_world example_degrees) 0) ''desirability'' = Some 7 \<and>
   JString ''centroid'' \<noteq> DEFUZ_TYPE_MAXAV \<and> JString ''centroid'' \<noteq> DEFUZ_TYPE_CENTROID \<and>
   forEach (initConsequence (FuzzyRule_methods shared_consequent_rules))
     (rules (heap (example_world example_degrees) 0)) (store (example_world example_degrees))
       = (Inr (), example_degrees(2 := 0)) \<and>
   forEach (evaluate (FuzzyRule_methods shared_consequent_rules))
     (rules (heap (example_world example_degrees) 0)) (example_degrees(2 := 0))
       = (Inr (), example_degrees(2 := 1 / 2)) \<and>
   defuzzifyMaxAv (MaxAv_only (1 / 1000) desirability) 7 (example_degrees(2 := 1 / 2))
     = (Inr 75, example_degrees(2 := 1 / 2)) \<and>
   defuzzify (FuzzyRule_methods shared_consequent_rules) (MaxAv_only (1 / 1000) desirability)
       0 ''desirability'' (Some (JString ''centroid'')) (example_world example_degrees)
     = (Inr 75, (example_world example_degrees)\<lparr>store := example_degrees(2 := 1 / 2),
          logger := [(''YUKA.FuzzyModule: Unknown defuzzification method:'', JString ''centroid'')]\<rparr>) \<and>
   fst (defuzzify (FuzzyRule_methods shared_consequent_rules) (MaxAv_only (1 / 1000) desirability)
       0 ''desirability'' (Some DEFUZ_TYPE_MAXAV) (example_world example_degrees)) = Inr 75"
proof -
  have r: "flvs (heap (example_world example_degrees) 0) ''desirability'' = Some 7"
    by (rule example_registered)
  have m: "JString ''centroid'' \<noteq> DEFUZ_TYPE_MAXAV"
    and c: "JString ''centroid'' \<noteq> DEFUZ_TYPE_CENTROID"
    by (simp_all add: DEFUZ_TYPE_MAXAV_def DEFUZ_TYPE_CENTROID_def)
  have i: "forEach (initConsequence (FuzzyRule_methods shared_consequent_rules))
     (rules (heap (example_world example_degrees) 0)) (store (example_world example_degrees))
       = (Inr (), example_degrees(2 := 0))"
    by (simp only: example_rules example_store example_init)
  have e: "forEach (evaluate (FuzzyRule_methods shared_consequent_rules))
     (rules (heap (example_world example_degrees) 0)) (example_degrees(2 := 0))
       = (Inr (), example_degrees(2 := 1 / 2))"
    by (simp only: example_rules example_evaluate)
  have d: "defuzzifyMaxAv (MaxAv_only (1 / 1000) desirability) 7 (example_degrees(2 := 1 / 2))
     = (Inr 75, example_degrees(2 := 1 / 2))"
    by (rule example_MaxAv)
  show ?thesis
    using defuzzify_unknown_type [OF r m c i e d] r m c i e d
    by (simp add: example_logger)
qed

section \<open>Composite terms\<close>

lemma results_map_Inr: "results (map Inr ds) = Inr ds"
  by (induction ds) simp_all

text \<open>
  C6: a FuzzyOR with one or more children, each of which yields a degree, returns the
  maximum of the children's degrees; children at 0.2 and 0.5 yield 0.5 (the case that the
  unit test of \<open>FuzzyOR.getDegreeOfMembership\<close> checks).
\<close>

theorem FuzzyOR_maximum:
  "(ts \<noteq> [] \<and> map (\<lambda>t. getDegreeOfMembership t s) ts = map Inr ds \<longrightarrow>
      getDegreeOfMembership (FuzzyOR ts) s = Inr (Max (set ds))) \<and>
   (s i = 2 / 10 \<and> s j = 5 / 10 \<longrightarrow>
      getDegreeOfMembership (FuzzyOR [FuzzySet i, FuzzySet j]) s = Inr (5 / 10))"
proof (intro conjI impI)
  assume a: "ts \<noteq> [] \<and> map (\<lambda>t. getDegreeOfMembership t s) ts = map Inr ds"
  then have "length ds = length ts" by (metis length_map)
  with a obtain d ds' where ds: "ds = d # ds'" by (cases ds) auto
  have "fold max ds' d = Max (set (d # ds'))" by (rule Max.set_eq_fold [symmetric])
  with a ds show "getDegreeOfMembership (FuzzyOR ts) s = Inr (Max (set ds))"
    by (simp add: results_map_Inr)
next
  assume "s i = 2 / 10 \<and> s j = 5 / 10"
  then show "getDegreeOfMembership (FuzzyOR [FuzzySet i, FuzzySet j]) s = Inr (5 / 10)"
    by simp
qed

theorem FuzzyOR_maximum_witness:
  "[FuzzySet 0, FuzzySet 1] \<noteq> [] \<and>
   map (\<lambda>t. getDegreeOfMembership t ((\<lambda>_. 0)(0 := 2 / 10, 1 := 5 / 10))) [FuzzySet 0, FuzzySet 1]
     = map Inr [2 / 10, 5 / 10] \<and>
   getDegreeOfMembership (FuzzyOR [FuzzySet 0, FuzzySet 1]) ((\<lambda>_. 0)(0 := 2 / 10, 1 := 5 / 10))
     = Inr (Max (set [2 / 10, 5 / 10])) \<and>
   Max (set [2 / 10, 5 / 10 :: real]) = 5 / 10"
  using FuzzyOR_maximum [of "[FuzzySet 0, FuzzySet 1]" "(\<lambda>_. 0)(0 := 2 / 10, 1 := 5 / 10)"
      "[2 / 10, 5 / 10]" 0 1]
  by simp

section \<open>Order of rule evaluation\<close>

lemma fold_update_apply:
  assumes "\<And>t s. t \<in> set ts \<Longrightarrow>
     updateDegreeOfMembership t v s x = (if x \<in> leaves t then max (s x) v else s x)"
  shows "fold (\<lambda>t. updateDegreeOfMembership t v) ts s x =
     (if x \<in> (\<Union>t\<in>set ts. leaves t) then max (s x) v else s x)"
  using assms by (induction ts arbitrary: s) auto

lemma update_apply:
  "updateDegreeOfMembership t v s x = (if x \<in> leaves t then max (s x) v else s x)"
proof (induction t arbitrary: s)
  case (FuzzySet i)
  show ?case by simp
next
  case (FuzzyAND ts)
  show ?case using fold_update_apply [of ts v x s] FuzzyAND by simp
next
  case (FuzzyOR ts)
  show ?case using fold_update_apply [of ts v x s] FuzzyOR by simp
next
  case (FuzzyVERY t)
  then show ?case by simp
next
  case (FuzzyFAIRLY t)
  then show ?case by simp
qed

lemma fold_clear_apply:
  assumes "\<And>t s. t \<in> set ts \<Longrightarrow>
     clearDegreeOfMembership t s x = (if x \<in> leaves t then 0 else s x)"
  shows "fold clearDegreeOfMembership ts s x =
     (if x \<in> (\<Union>t\<in>set ts. leaves t) then 0 else s x)"
  using assms by (induction ts arbitrary: s) auto

lemma clear_apply:
  "clearDegreeOfMembership t s x = (if x \<in> leaves t then 0 else s x)"
proof (induction t arbitrary: s)
  case (FuzzySet i)
  show ?case by simp
next
  case (FuzzyAND ts)
  show ?case using fold_clear_apply [of ts x s] FuzzyAND by simp
next
  case (FuzzyOR ts)
  show ?case using fold_clear_apply [of ts x s] FuzzyOR by simp
next
  case (FuzzyVERY t)
  then show ?case by simp
next
  case (FuzzyFAIRLY t)
  then show ?case by simp
qed

lemma getDegreeOfMembership_cong:
  "(\<And>x. x \<in> leaves t \<Longrightarrow> s x = s' x) \<Longrightarrow>
     getDegreeOfMembership t s = getDegreeOfMembership t s'"
proof (induction t)
  case (FuzzySet i)
  then show ?case by simp
next
  case (FuzzyAND ts)
  then have "map (\<lambda>t. getDegreeOfMembership t s) ts = map (\<lambda>t. getDegreeOfMembership t s') ts"
    by (intro map_cong) auto
  then show ?case by (simp only: getDegreeOfMembership.simps)
next
  case (FuzzyOR ts)
  then have "map (\<lambda>t. getDegreeOfMembership t s) ts = map (\<lambda>t. getDegreeOfMembership t s') ts"
    by (intro map_cong) auto
  then show ?case by (simp only: getDegreeOfMembership.simps)
next
  case (FuzzyVERY t)
  then show ?case by simp
next
  case (FuzzyFAIRLY t)
  then show ?case by simp
qed

lemma results_Inl: "results rs = Inl e \<Longrightarrow> Inl e \<in> set rs"
  by (induction rs rule: results.induct) (auto split: sum.splits)

lemma getDegreeOfMembership_error:
  "getDegreeOfMembership t s = Inl e \<Longrightarrow> e = ConfigurationError"
proof (induction t)
  case (FuzzySet i)
  then show ?case by simp
next
  case (FuzzyAND ts)
  then show ?case
    by (auto split: sum.splits list.splits dest!: results_Inl)
next
  case (FuzzyOR ts)
  then show ?case
    by (auto split: sum.splits list.splits dest!: results_Inl)
next
  case (FuzzyVERY t)
  then show ?case by (auto split: sum.splits)
next
  case (FuzzyFAIRLY t)
  then show ?case by (auto split: sum.splits)
qed

lemma forEach_init:
  "forEach (initConsequence (FuzzyRule_methods rule_at)) rs s =
     (Inr (), fold (\<lambda>r. clearDegreeOfMembership (consequence (rule_at r))) rs s)"
  by (induction rs arbitrary: s)
     (simp_all add: FuzzyRule_methods_def FuzzyRule_initConsequence_def)

lemma fold_clear_rules_apply:
  "fold (\<lambda>r. clearDegreeOfMembership (consequence (rule_at r))) rs s x =
     (if x \<in> (\<Union>r\<in>set rs. leaves (consequence (rule_at r))) then 0 else s x)"
  by (induction rs arbitrary: s) (auto simp: clear_apply)

lemma forEach_evaluate_fst:
  assumes "\<forall>r\<in>set rs. leaves (antecedent (rule_at r)) \<subseteq> R"
    and "\<forall>r\<in>set rs. leaves (consequence (rule_at r)) \<inter> R = {}"
    and "\<forall>x\<in>R. s x = s0 x"
  shows "fst (forEach (evaluate (FuzzyRule_methods rule_at)) rs s) =
     (if \<forall>r\<in>set rs. \<exists>d. getDegreeOfMembership (antecedent (rule_at r)) s0 = Inr d
      then Inr () else Inl ConfigurationError)"
  using assms
proof (induction rs arbitrary: s)
  case Nil
  show ?case by simp
next
  case (Cons r rs)
  have same: "getDegreeOfMembership (antecedent (rule_at r)) s =
      getDegreeOfMembership (antecedent (rule_at r)) s0"
    using Cons.prems by (intro getDegreeOfMembership_cong) auto
  show ?case
  proof (cases "getDegreeOfMembership (antecedent (rule_at r)) s0")
    case (Inl e)
    then have "e = ConfigurationError" by (rule getDegreeOfMembership_error)
    with Inl same show ?thesis
      by (simp add: FuzzyRule_methods_def FuzzyRule_evaluate_def)
  next
    case (Inr d)
    let ?s' = "updateDegreeOfMembership (consequence (rule_at r)) d s"
    have agree: "\<forall>x\<in>R. ?s' x = s0 x"
      using Cons.prems by (auto simp: update_apply)
    have IH: "fst (forEach (evaluate (FuzzyRule_methods rule_at)) rs ?s') =
     (if \<forall>r\<in>set rs. \<exists>d. getDegreeOfMembership (antecedent (rule_at r)) s0 = Inr d
      then Inr () else Inl ConfigurationError)"
      using Cons.prems agree by (intro Cons.IH) auto
    have step: "forEach (evaluate (FuzzyRule_methods rule_at)) (r # rs) s =
        forEach (evaluate (FuzzyRule_methods rule_at)) rs ?s'"
      using Inr same by (simp add: FuzzyRule_methods_def FuzzyRule_evaluate_def)
    show ?thesis
      using Inr by (simp only: step IH) simp
  qed
qed

lemma forEach_evaluate_snd:
  assumes "\<forall>r\<in>set rs. leaves (antecedent (rule_at r)) \<subseteq> R"
    and "\<forall>r\<in>set rs. leaves (consequence (rule_at r)) \<inter> R = {}"
    and "\<forall>x\<in>R. s x = s0 x"
    and "\<forall>r\<in>set rs. \<exists>d. getDegreeOfMembership (antecedent (rule_at r)) s0 = Inr d"
  shows "snd (forEach (evaluate (FuzzyRule_methods rule_at)) rs s) =
     fold (\<lambda>r. updateDegreeOfMembership (consequence (rule_at r))
              (projr (getDegreeOfMembership (antecedent (rule_at r)) s0))) rs s"
  using assms
proof (induction rs arbitrary: s)
  case Nil
  show ?case by simp
next
  case (Cons r rs)
  have same: "getDegreeOfMembership (antecedent (rule_at r)) s =
      getDegreeOfMembership (antecedent (rule_at r)) s0"
    using Cons.prems by (intro getDegreeOfMembership_cong) auto
  from Cons.prems obtain d where d: "getDegreeOfMembership (antecedent (rule_at r)) s0 = Inr d"
    by auto
  let ?s' = "updateDegreeOfMembership (consequence (rule_at r)) d s"
  have agree: "\<forall>x\<in>R. ?s' x = s0 x"
    using Cons.prems by (auto simp: update_apply)
  have IH: "snd (forEach (evaluate (FuzzyRule_methods rule_at)) rs ?s') =
     fold (\<lambda>r. updateDegreeOfMembership (consequence (rule_at r))
              (projr (getDegreeOfMembership (antecedent (rule_at r)) s0))) rs ?s'"
    using Cons.prems agree by (intro Cons.IH) auto
  have step: "forEach (evaluate (FuzzyRule_methods rule_at)) (r # rs) s =
      forEach (evaluate (FuzzyRule_methods rule_at)) rs ?s'"
    using d same by (simp add: FuzzyRule_methods_def FuzzyRule_evaluate_def)
  show ?case
    using d by (simp only: step IH) simp
qed

lemma update_commute:
  "updateDegreeOfMembership t v \<circ> updateDegreeOfMembership t' v' =
   updateDegreeOfMembership t' v' \<circ> updateDegreeOfMembership t v"
  by (rule ext, rule ext) (simp add: update_apply max.commute max.left_commute)


lemma no_feedback_iff:
  "no_feedback rule_at rs \<longleftrightarrow>
     (\<forall>r\<in>set rs. \<forall>r'\<in>set rs.
        leaves (antecedent (rule_at r)) \<inter> leaves (consequence (rule_at r')) = {})"
  by (simp add: no_feedback_def list_all_iff)

lemma rules_phase_perm:
  fixes rule_at :: "'r \<Rightarrow> FuzzyRule"
  assumes perm: "mset rs' = mset rs" and nf: "no_feedback rule_at rs"
    and init: "forEach (initConsequence (FuzzyRule_methods rule_at)) rs s = (i, s1)"
    and init': "forEach (initConsequence (FuzzyRule_methods rule_at)) rs' s = (i', s1')"
    and eval: "forEach (evaluate (FuzzyRule_methods rule_at)) rs s1 = (e, s2)"
    and eval': "forEach (evaluate (FuzzyRule_methods rule_at)) rs' s1' = (e', s2')"
  shows "i = Inr () \<and> i' = Inr () \<and> e' = e \<and> (e = Inr () \<longrightarrow> s2' = s2)"
proof -
  have sets: "set rs' = set rs" using perm by (rule mset_eq_setD)
  define R where "R = (\<Union>r\<in>set rs. leaves (antecedent (rule_at r)))"
  have i: "i = Inr ()" and s1: "s1 = fold (\<lambda>r. clearDegreeOfMembership (consequence (rule_at r))) rs s"
    using init by (simp_all add: forEach_init)
  have i': "i' = Inr ()" and s1': "s1' = fold (\<lambda>r. clearDegreeOfMembership (consequence (rule_at r))) rs' s"
    using init' by (simp_all add: forEach_init)
  have same1: "s1' = s1"
    unfolding s1 s1' by (rule ext) (simp add: fold_clear_rules_apply sets)
  have reads: "\<forall>r\<in>set rs. leaves (antecedent (rule_at r)) \<subseteq> R"
    by (auto simp: R_def)
  have writes: "\<forall>r\<in>set rs. leaves (consequence (rule_at r)) \<inter> R = {}"
    using nf unfolding no_feedback_iff R_def by blast
  have agree: "\<forall>x\<in>R. s1 x = s1 x" by simp
  let ?ok = "\<forall>r\<in>set rs. \<exists>d. getDegreeOfMembership (antecedent (rule_at r)) s1 = Inr d"
  have e: "e = (if ?ok then Inr () else Inl ConfigurationError)"
    using forEach_evaluate_fst [OF reads writes agree] eval by simp
  have e': "e' = (if ?ok then Inr () else Inl ConfigurationError)"
    using forEach_evaluate_fst [of rs' rule_at R s1 s1] reads writes eval' sets same1 by simp
  have "s2' = s2" if "e = Inr ()"
  proof -
    from that e have ok: ?ok by (simp split: if_splits)
    let ?step = "\<lambda>r. updateDegreeOfMembership (consequence (rule_at r))
              (projr (getDegreeOfMembership (antecedent (rule_at r)) s1))"
    have "s2 = fold ?step rs s1"
      using forEach_evaluate_snd [OF reads writes agree ok] eval by simp
    moreover have "s2' = fold ?step rs' s1"
      using forEach_evaluate_snd [of rs' rule_at R s1 s1] reads writes ok eval' sets same1 by simp
    moreover have "fold ?step rs' = fold ?step rs"
      by (rule fold_multiset_equiv) (simp_all add: update_commute perm)
    ultimately show ?thesis by simp
  qed
  with i i' e e' show ?thesis by simp
qed

text \<open>
  C7: when the rules target independent or OR-compatible consequents, every permutation
  of the registration order gives a \<open>defuzzify\<close> call on the same fuzzified state the same
  outcome: the identical crisp value, or a failure in both orders. Consequents may be
  shared between rules, since they accumulate by \<open>max\<close>; they are independent in that no
  fuzzy set written by the consequent of a rule is read by the antecedent of a rule, the
  authoring contract of spec 4.2 under which a set is never input and output in one
  cycle. The rules are arbitrary terms over fuzzy sets, AND, OR and the hedges, and the
  FLV methods are arbitrary functions of the degrees of membership, so that equal
  outcomes are equal exactly and not only within a tolerance.
\<close>

theorem rule_order_independent:
  fixes rule_at :: "'r \<Rightarrow> FuzzyRule"
  assumes perm: "mset rs' = mset (rules (heap w this))"
    and nf: "no_feedback rule_at (rules (heap w this))"
  shows "fst (defuzzify (FuzzyRule_methods rule_at) fm this name ty (with_rules this rs' w)) =
         fst (defuzzify (FuzzyRule_methods rule_at) fm this name ty w)"
proof -
  let ?rm = "FuzzyRule_methods rule_at"
  let ?rs = "rules (heap w this)"
  obtain i s1 where init: "forEach (initConsequence ?rm) ?rs (store w) = (i, s1)"
    by (cases "forEach (initConsequence ?rm) ?rs (store w)")
  obtain i' s1' where init': "forEach (initConsequence ?rm) rs' (store w) = (i', s1')"
    by (cases "forEach (initConsequence ?rm) rs' (store w)")
  obtain e s2 where eval: "forEach (evaluate ?rm) ?rs s1 = (e, s2)"
    by (cases "forEach (evaluate ?rm) ?rs s1")
  obtain e' s2' where eval': "forEach (evaluate ?rm) rs' s1' = (e', s2')"
    by (cases "forEach (evaluate ?rm) rs' s1'")
  from rules_phase_perm [OF perm nf init init' eval eval']
  have i: "i = Inr ()" and i': "i' = Inr ()" and e': "e' = e" and s2: "e = Inr () \<Longrightarrow> s2' = s2"
    by simp_all
  show ?thesis
  proof (cases e)
    case (Inl err)
    with init init' eval eval' i i' e' show ?thesis
      by (simp add: defuzzify_def initConsequences_def with_rules_def Let_def)
  next
    case (Inr u)
    then have "e = Inr ()" by simp
    with s2 have "s2' = s2" by simp
    with Inr init init' eval eval' i i' e' show ?thesis
      by (simp add: defuzzify_def initConsequences_def with_rules_def Let_def
          call_flv_def warn_def split: option.splits prod.splits)
  qed
qed

lemma example_shared_result:
  "fst (defuzzify (FuzzyRule_methods shared_consequent_rules) (MaxAv_only (1 / 1000) desirability)
     0 ''desirability'' None (example_world example_degrees)) = Inr 75"
  by (simp add: example_defs)

theorem rule_order_independent_witness:
  "mset [2, 1] = mset (rules (heap (example_world example_degrees) 0)) \<and>
   no_feedback shared_consequent_rules (rules (heap (example_world example_degrees) 0)) \<and>
   fst (defuzzify (FuzzyRule_methods shared_consequent_rules) (MaxAv_only (1 / 1000) desirability)
          0 ''desirability'' None (with_rules 0 [2, 1] (example_world example_degrees))) =
   fst (defuzzify (FuzzyRule_methods shared_consequent_rules) (MaxAv_only (1 / 1000) desirability)
          0 ''desirability'' None (example_world example_degrees)) \<and>
   fst (defuzzify (FuzzyRule_methods shared_consequent_rules) (MaxAv_only (1 / 1000) desirability)
          0 ''desirability'' None (example_world example_degrees)) = Inr 75"
proof -
  have p: "mset [2, 1] = mset (rules (heap (example_world example_degrees) 0))"
    by (simp add: example_rules)
  have n: "no_feedback shared_consequent_rules (rules (heap (example_world example_degrees) 0))"
    by (simp add: example_rules no_feedback_def shared_consequent_rules_def)
  show ?thesis
    using rule_order_independent
      [OF p n, of "MaxAv_only (1 / 1000) desirability" "''desirability''" None]
      p n example_shared_result
    by simp
qed

end
